theory Spec2Isabelle
  imports Main
begin

section \<open>The world the program reads\<close>

text \<open>
  The program reads the process environment, the configuration file and the \<open>.env\<close>
  file of the working directory. A configuration file is either unparseable or parses
  to its settings: leaf keys written with dots (\<open>server.host\<close>), each with a scalar.
  \<open>dotenv\<close> is the parsed \<open>.env\<close> file, \<open>None\<close> when it is missing or unreadable.
\<close>

datatype val = VStr string | VInt int

datatype file_content = Unparseable | Parsed "string \<rightharpoonup> val"

record world =
  environ :: "string \<rightharpoonup> string"
  files :: "string \<rightharpoonup> file_content"
  dotenv :: "(string \<rightharpoonup> string) option"

text \<open>\<open>os.Getenv\<close>: the value of the variable, the empty string when it is unset.\<close>

definition Getenv :: "(string \<rightharpoonup> string) \<Rightarrow> string \<Rightarrow> string" where
  "Getenv e k = (case e k of None \<Rightarrow> [] | Some s \<Rightarrow> s)"

section \<open>Configuration structure (internal/config/config.go)\<close>

text \<open>
  The four sub-structs of \<open>Config\<close>. Go's \<open>string\<close> is a byte string, modelled as
  \<open>string\<close>; Go's \<open>int\<close> fields are modelled as \<open>int\<close>. The two \<open>Host\<close> and the two
  \<open>Port\<close> fields are told apart by their record name (\<open>ServerConfig.Host\<close>,
  \<open>DatabaseConfig.Host\<close>).
\<close>

record ServerConfig =
  Host :: string
  Port :: string
  ReadTimeout :: int
  WriteTimeout :: int
  IdleTimeout :: int

record DatabaseConfig =
  Host :: string
  Port :: int
  User :: string
  Password :: string
  DBName :: string
  SSLMode :: string

record JWTConfig =
  Secret :: string
  ExpirationTime :: int

record LoggerConfig =
  Level :: string
  Format :: string

record Config =
  Server :: ServerConfig
  Database :: DatabaseConfig
  JWT :: JWTConfig
  Logger :: LoggerConfig

text \<open>
  The errors of the configuration flow. The source builds them from message texts:
  \<^item> \<open>FileParseError\<close>: "error reading config file: ..." (\<open>LoadConfig\<close>);
  \<^item> \<open>TypeConversion key\<close>: "error unmarshaling config: ..." (\<open>LoadConfig\<close>);
  \<^item> \<open>InsecureSecret\<close>: "JWT_SECRET must be changed from default in production";
  \<^item> \<open>UnsafeDatabaseHost\<close>: "production database should not use localhost";
  \<^item> \<open>UnsafeLogLevel\<close>: "debug logging not recommended in production";
  \<^item> \<open>UnknownEnvironment env\<close>: "unknown environment: env" (\<open>ValidateConfig\<close>).
\<close>

datatype config_error =
    FileParseError
  | TypeConversion string
  | InsecureSecret
  | UnsafeDatabaseHost
  | UnsafeLogLevel
  | UnknownEnvironment string

section \<open>Validation\<close>

text \<open>Go's \<open>strings.HasPrefix\<close> and \<open>strings.Contains\<close>.\<close>

definition strings_HasPrefix :: "string \<Rightarrow> string \<Rightarrow> bool" where
  "strings_HasPrefix s p = (take (length p) s = p)"

fun strings_Contains :: "string \<Rightarrow> string \<Rightarrow> bool" where
  "strings_Contains [] substr = (substr = [])"
| "strings_Contains (c # cs) substr =
     (strings_HasPrefix (c # cs) substr \<or> strings_Contains cs substr)"

text \<open>
  \<open>validateProductionConfig\<close>: the three checks in the order of the source. A Go
  \<open>error\<close> result is an option: \<open>None\<close> is \<open>nil\<close>.
\<close>

definition validateProductionConfig :: "Config \<Rightarrow> config_error option" where
  "validateProductionConfig cfg =
     (if Secret (JWT cfg) = ''your-secret-key-change-in-production'' then Some InsecureSecret
      else if strings_Contains (DatabaseConfig.Host (Database cfg)) ''localhost''
              \<and> DatabaseConfig.Host (Database cfg) \<noteq> ''localhost''
           then Some UnsafeDatabaseHost
      else if Level (Logger cfg) = ''debug'' then Some UnsafeLogLevel
      else None)"

definition validateNonProductionConfig :: "Config \<Rightarrow> config_error option" where
  "validateNonProductionConfig cfg = None"

definition ValidateConfig :: "Config \<Rightarrow> string \<Rightarrow> config_error option" where
  "ValidateConfig cfg env =
     (if env = ''production'' then validateProductionConfig cfg
      else if env = ''development'' \<or> env = ''staging'' then validateNonProductionConfig cfg
      else Some (UnknownEnvironment env))"

section \<open>The configuration registry (viper)\<close>

text \<open>
  Modelled from the spec: the global registry of the viper library, which is not in
  the repository, and its setters. The source keeps its settings there; the registry
  is a record threaded through the calls of \<open>LoadConfig\<close>, with the configuration
  file path, the switch of automatic environment lookup, the key replacer, the defaults
  and the settings read from the file. \<open>viper_New\<close> is the registry of a fresh process,
  in which no path is set (the empty path); \<open>SetConfigFile\<close> with the empty path leaves
  a registry with no path set. Where the spec is silent or the library is known to
  behave otherwise than the spec says, the definitions of this section follow the
  library, and say so.
\<close>

record Viper =
  configFile :: string
  automaticEnvApplied :: bool
  envKeyReplacer :: "(char \<times> char) option"
  defaults :: "string \<rightharpoonup> val"
  config :: "string \<rightharpoonup> val"

definition viper_New :: Viper where
  "viper_New = \<lparr>configFile = [], automaticEnvApplied = False, envKeyReplacer = None,
                 defaults = Map.empty, config = Map.empty\<rparr>"

definition SetConfigFile :: "string \<Rightarrow> Viper \<Rightarrow> Viper" where
  "SetConfigFile path v = v\<lparr>configFile := path\<rparr>"

definition AutomaticEnv :: "Viper \<Rightarrow> Viper" where
  "AutomaticEnv v = v\<lparr>automaticEnvApplied := True\<rparr>"

definition SetDefault :: "string \<Rightarrow> val \<Rightarrow> Viper \<Rightarrow> Viper" where
  "SetDefault key x v = v\<lparr>defaults := (defaults v)(key \<mapsto> x)\<rparr>"

text \<open>
  \<open>strings.NewReplacer(old, new)\<close> for one-byte \<open>old\<close> and \<open>new\<close>, as the source
  calls it: every occurrence of the byte is replaced.
\<close>

definition NewReplacer :: "char \<Rightarrow> char \<Rightarrow> char \<times> char" where
  "NewReplacer old new = (old, new)"

definition Replace :: "char \<times> char \<Rightarrow> string \<Rightarrow> string" where
  "Replace r s = map (\<lambda>c. if c = fst r then snd r else c) s"

definition SetEnvKeyReplacer :: "char \<times> char \<Rightarrow> Viper \<Rightarrow> Viper" where
  "SetEnvKeyReplacer r v = v\<lparr>envKeyReplacer := Some r\<rparr>"

text \<open>
  The keys and values of the \<open>viper.SetDefault\<close> calls of \<open>setDefaults\<close>, in the order
  of the source; \<open>setDefaults\<close> registers them one after the other.
\<close>

definition fallbackDefaults :: "(string \<times> val) list" where
  "fallbackDefaults =
     [(''server.host'', VStr ''localhost''),
      (''server.port'', VStr ''3000''),
      (''server.read_timeout'', VInt 30),
      (''server.write_timeout'', VInt 30),
      (''server.idle_timeout'', VInt 60),
      (''database.host'', VStr ''localhost''),
      (''database.port'', VInt 5432),
      (''database.user'', VStr ''postgres''),
      (''database.password'', VStr []),
      (''database.dbname'', VStr ''user_management''),
      (''database.sslmode'', VStr ''disable''),
      (''jwt.secret'', VStr ''your-secret-key-change-in-production''),
      (''jwt.expiration_time'', VInt 24),
      (''logger.level'', VStr ''info''),
      (''logger.format'', VStr ''json'')]"

definition setDefaults :: "Viper \<Rightarrow> Viper" where
  "setDefaults v = foldl (\<lambda>v' (key, x). SetDefault key x v') v fallbackDefaults"

text \<open>
  Modelled from the spec: the name of the environment variable of a key, which
  viper computes inside \<open>AutomaticEnv\<close> lookups and is not in the repository. The key
  goes through the replacer registered by \<open>SetEnvKeyReplacer\<close> and is upper-cased
  ("dot-separated config key becomes underscore-separated, upper-cased").
\<close>

definition toUpper :: "char \<Rightarrow> char" where
  "toUpper c =
     (case map_of (zip ''abcdefghijklmnopqrstuvwxyz'' ''ABCDEFGHIJKLMNOPQRSTUVWXYZ'') c of
        Some u \<Rightarrow> u
      | None \<Rightarrow> c)"

definition envKey :: "Viper \<Rightarrow> string \<Rightarrow> string" where
  "envKey v key =
     map toUpper (case envKeyReplacer v of None \<Rightarrow> key | Some r \<Rightarrow> Replace r key)"

text \<open>
  Modelled from the spec: viper's reading of an environment variable, which is not in
  the repository. As in the library, a variable that is set to the empty string counts
  as unset: only \<open>AllowEmptyEnv\<close> changes that, and \<open>LoadConfig\<close> never calls it.
\<close>

definition getEnv :: "(string \<rightharpoonup> string) \<Rightarrow> string \<Rightarrow> string option" where
  "getEnv e name = (case e name of None \<Rightarrow> None | Some s \<Rightarrow> if s = [] then None else Some s)"

text \<open>
  The parents of a key are its proper prefixes that end before a dot: \<open>server\<close> for
  \<open>server.host\<close>.
\<close>

fun parentsFrom :: "string \<Rightarrow> string \<Rightarrow> string list" where
  "parentsFrom pre [] = []"
| "parentsFrom pre (c # cs) =
     (if c = CHR ''.'' then [pre] else []) @ parentsFrom (pre @ [c]) cs"

definition parentKeys :: "string \<Rightarrow> string list" where
  "parentKeys key = parentsFrom [] key"

text \<open>
  Modelled from the spec: viper's lookup of one key, which is not in the repository.
  Priorities as the spec and the comment "How JWT Secret Override Works" of the source
  give them: the environment variable of the key when automatic environment lookup is
  on, else the value of the configuration file, else the default. A value from the
  environment is a string. As in the library, a source that has a value at a parent of
  the key hides the key in every source of lower priority: with automatic environment
  lookup on, a variable named after a parent (\<open>LOGGER\<close> for \<open>logger.level\<close>) leaves the
  key without a value unless the key has a variable of its own, and so does a scalar
  that the file gives at a parent unless the file gives the key itself.
\<close>

definition Get :: "Viper \<Rightarrow> (string \<rightharpoonup> string) \<Rightarrow> string \<Rightarrow> val option" where
  "Get v e key =
     (case (if automaticEnvApplied v then getEnv e (envKey v key) else None) of
        Some s \<Rightarrow> Some (VStr s)
      | None \<Rightarrow>
          if automaticEnvApplied v
             \<and> list_ex (\<lambda>parent. getEnv e (envKey v parent) \<noteq> None) (parentKeys key)
          then None
          else (case config v key of
                  Some x \<Rightarrow> Some x
                | None \<Rightarrow>
                    if list_ex (\<lambda>parent. config v parent \<noteq> None) (parentKeys key) then None
                    else defaults v key))"

text \<open>
  Go's \<open>filepath.Ext\<close>: the suffix of the path that begins at the last dot of its last
  element, empty when there is none.
\<close>

fun extScan :: "string \<Rightarrow> string \<Rightarrow> string" where
  "extScan ext [] = ext"
| "extScan ext (c # cs) =
     (if c = CHR ''/'' then extScan [] cs
      else if c = CHR ''.'' then extScan (c # cs) cs
      else extScan ext cs)"

definition filepath_Ext :: "string \<Rightarrow> string" where
  "filepath_Ext path = extScan [] path"

text \<open>
  Modelled from the spec: \<open>viper.ReadInConfig\<close>, which is not in the repository. The
  spec and the comment of \<open>LoadConfig\<close> ("If config file doesn't exist, log and
  continue") take a missing file for \<open>ConfigFileNotFoundError\<close>. The library gives that
  error only when no path is set and its search for a file finds nothing (it searches
  the directories registered for it, and \<open>LoadConfig\<close> registers none; only a file at
  the empty path itself, which no file system has, is read then). For a path set with
  \<open>SetConfigFile\<close> it first refuses a file type it does not know (the extension of the
  path), then reads the file, and a file that does not exist is a path error of the file
  system. A malformed file is a parse error, and only a parsed file replaces the file
  settings of the registry.
\<close>

datatype read_error =
  ConfigFileNotFoundError | UnsupportedConfigError | PathError | ConfigParseError

definition SupportedExts :: "string list" where
  "SupportedExts =
     [''json'', ''toml'', ''yaml'', ''yml'', ''properties'', ''props'', ''prop'', ''hcl'',
      ''tfvars'', ''dotenv'', ''env'', ''ini'']"

definition configTypeOf :: "string \<Rightarrow> string" where
  "configTypeOf path = (let ext = filepath_Ext path in if length ext > 1 then tl ext else [])"

definition getConfigType :: "Viper \<Rightarrow> string" where
  "getConfigType v = configTypeOf (configFile v)"

definition ReadInConfig :: "(string \<rightharpoonup> file_content) \<Rightarrow> Viper \<Rightarrow> read_error option \<times> Viper" where
  "ReadInConfig fs v =
     (if configFile v = [] \<and> fs [] = None then (Some ConfigFileNotFoundError, v)
      else if getConfigType v \<notin> set SupportedExts then (Some UnsupportedConfigError, v)
      else (case fs (configFile v) of
              None \<Rightarrow> (Some PathError, v)
            | Some Unparseable \<Rightarrow> (Some ConfigParseError, v)
            | Some (Parsed m) \<Rightarrow> (None, v\<lparr>config := m\<rparr>)))"

text \<open>
  Modelled from the spec: the conversion of a setting to the declared type of its
  field ("converting to the field's declared type (string, integer, duration)", "Type
  conversion failure for any key fails with \<open>TypeConversion\<close>"), done by the decoder
  behind \<open>viper.Unmarshal\<close>, which is not in the repository. As in the library, a
  string converts to an integer field as Go's \<open>strconv.ParseInt\<close> with base 0 and 64
  bits reads it, the empty string as 0: an optional sign, then a prefix \<open>0b\<close>, \<open>0o\<close>,
  \<open>0x\<close> or a leading \<open>0\<close> (octal), then digits of that base, with underscores allowed
  only between digits or after the prefix. An integer converts to a string field as its
  decimal numeral. A key with no setting at all leaves the zero value of the field.
\<close>

definition lower :: "char \<Rightarrow> char" where
  "lower c =
     (case map_of (zip ''ABCDEFGHIJKLMNOPQRSTUVWXYZ'' ''abcdefghijklmnopqrstuvwxyz'') c of
        Some l \<Rightarrow> l
      | None \<Rightarrow> c)"

definition digitVal :: "char \<Rightarrow> nat option" where
  "digitVal c =
     map_of
       (zip ''0123456789abcdefghijklmnopqrstuvwxyz''
          [0, 1, 2, 3, 4, 5, 6, 7, 8, 9, 10, 11, 12, 13, 14, 15, 16, 17, 18, 19, 20, 21, 22,
           23, 24, 25, 26, 27, 28, 29, 30, 31, 32, 33, 34, 35])
       (lower c)"

fun parseDigits :: "int \<Rightarrow> int \<Rightarrow> string \<Rightarrow> int option" where
  "parseDigits base acc [] = Some acc"
| "parseDigits base acc (c # cs) =
     (if c = CHR ''_'' then parseDigits base acc cs
      else (case digitVal c of
              None \<Rightarrow> None
            | Some d \<Rightarrow>
                if int d \<ge> base then None else parseDigits base (acc * base + int d) cs))"

text \<open>
  \<open>underscoreOK\<close> of \<open>strconv\<close>: an underscore must follow a digit or the base prefix and
  must be followed by a digit.
\<close>

datatype saw = SawStart | SawDigit | SawUnderscore | SawOther

fun underscoreScan :: "bool \<Rightarrow> saw \<Rightarrow> string \<Rightarrow> bool" where
  "underscoreScan hex s [] = (s \<noteq> SawUnderscore)"
| "underscoreScan hex s (c # cs) =
     (if c \<in> set ''0123456789'' \<or> (hex \<and> lower c \<in> set ''abcdef'')
        then underscoreScan hex SawDigit cs
      else if c = CHR ''_'' then s = SawDigit \<and> underscoreScan hex SawUnderscore cs
      else if s = SawUnderscore then False
      else underscoreScan hex SawOther cs)"

definition underscoreOK :: "string \<Rightarrow> bool" where
  "underscoreOK s0 =
     (let s = (case s0 of c # cs \<Rightarrow> if c = CHR ''-'' \<or> c = CHR ''+'' then cs else s0 | [] \<Rightarrow> s0)
      in case s of
           z # p # rest \<Rightarrow>
             if z = CHR ''0'' \<and> lower p \<in> set ''box''
             then underscoreScan (lower p = CHR ''x'') SawDigit rest
             else underscoreScan False SawStart s
         | _ \<Rightarrow> underscoreScan False SawStart s)"

definition parseUint :: "string \<Rightarrow> int option" where
  "parseUint s =
     (case s of
        [] \<Rightarrow> None
      | z # t \<Rightarrow>
          let (base, body) =
                (if z = CHR ''0'' then
                   (case t of
                      p # d # rest \<Rightarrow>
                        if lower p = CHR ''b'' then (2, d # rest)
                        else if lower p = CHR ''o'' then (8, d # rest)
                        else if lower p = CHR ''x'' then (16, d # rest)
                        else (8, t)
                    | _ \<Rightarrow> (8, t))
                 else (10, s))
          in case parseDigits base 0 body of
               None \<Rightarrow> None
             | Some n \<Rightarrow> if CHR ''_'' \<in> set body \<and> \<not> underscoreOK s then None else Some n)"

definition parseInt :: "string \<Rightarrow> int option" where
  "parseInt s =
     (case s of
        [] \<Rightarrow> None
      | c # cs \<Rightarrow>
          if c = CHR ''-'' then
            (case parseUint cs of
               None \<Rightarrow> None
             | Some n \<Rightarrow> if n \<le> 2 ^ 63 then Some (- n) else None)
          else
            (case parseUint (if c = CHR ''+'' then cs else s) of
               None \<Rightarrow> None
             | Some n \<Rightarrow> if n < 2 ^ 63 then Some n else None))"

definition fitsInt :: "int \<Rightarrow> bool" where
  "fitsInt n = (- (2 ^ 63) \<le> n \<and> n < 2 ^ 63)"

function showNat :: "nat \<Rightarrow> string" where
  "showNat n =
     (if n < 10 then [''0123456789'' ! n] else showNat (n div 10) @ [''0123456789'' ! (n mod 10)])"
  by pat_completeness auto
termination
  by (relation "measure id") auto

definition showInt :: "int \<Rightarrow> string" where
  "showInt n = (if n < 0 then CHR ''-'' # showNat (nat (- n)) else showNat (nat n))"

definition stringField :: "Viper \<Rightarrow> (string \<rightharpoonup> string) \<Rightarrow> string \<Rightarrow> string" where
  "stringField v e key =
     (case Get v e key of None \<Rightarrow> [] | Some (VStr s) \<Rightarrow> s | Some (VInt n) \<Rightarrow> showInt n)"

definition intField :: "Viper \<Rightarrow> (string \<rightharpoonup> string) \<Rightarrow> string \<Rightarrow> config_error + int" where
  "intField v e key =
     (case Get v e key of
        None \<Rightarrow> Inr 0
      | Some (VInt n) \<Rightarrow> if fitsInt n then Inr n else Inl (TypeConversion key)
      | Some (VStr s) \<Rightarrow>
          (case parseInt (if s = [] then ''0'' else s) of
             None \<Rightarrow> Inl (TypeConversion key)
           | Some n \<Rightarrow> Inr n))"

text \<open>
  As in the library, a section of \<open>Config\<close> (\<open>server\<close>, \<open>database\<close>, \<open>jwt\<close>, \<open>logger\<close>)
  decodes from a map of its keys: a scalar that the file gives at the name of the
  section itself is a conversion failure.
\<close>

definition sectionMap :: "Viper \<Rightarrow> string \<Rightarrow> config_error + unit" where
  "sectionMap v section = (if config v section = None then Inr () else Inl (TypeConversion section))"

definition bindE :: "'e + 'a \<Rightarrow> ('a \<Rightarrow> 'e + 'b) \<Rightarrow> 'e + 'b" where
  "bindE m f = (case m of Inl e \<Rightarrow> Inl e | Inr x \<Rightarrow> f x)"

text \<open>
  Modelled from the spec: \<open>viper.Unmarshal\<close> into \<open>Config\<close>. Every field takes the
  setting of the key that its \<open>mapstructure\<close> tags spell (\<open>server.host\<close> for
  \<open>Server.Host\<close>), converted to the field's type; the first section or field whose
  conversion fails gives the error.
\<close>

definition Unmarshal :: "Viper \<Rightarrow> (string \<rightharpoonup> string) \<Rightarrow> config_error + Config" where
  "Unmarshal v e =
     bindE (sectionMap v ''server'') (\<lambda>_.
     bindE (intField v e ''server.read_timeout'') (\<lambda>readTimeout.
     bindE (intField v e ''server.write_timeout'') (\<lambda>writeTimeout.
     bindE (intField v e ''server.idle_timeout'') (\<lambda>idleTimeout.
     bindE (sectionMap v ''database'') (\<lambda>_.
     bindE (intField v e ''database.port'') (\<lambda>port.
     bindE (sectionMap v ''jwt'') (\<lambda>_.
     bindE (intField v e ''jwt.expiration_time'') (\<lambda>expirationTime.
     bindE (sectionMap v ''logger'') (\<lambda>_.
     Inr \<lparr>Server =
            \<lparr>ServerConfig.Host = stringField v e ''server.host'',
             ServerConfig.Port = stringField v e ''server.port'',
             ReadTimeout = readTimeout,
             WriteTimeout = writeTimeout,
             IdleTimeout = idleTimeout\<rparr>,
          Database =
            \<lparr>DatabaseConfig.Host = stringField v e ''database.host'',
             DatabaseConfig.Port = port,
             User = stringField v e ''database.user'',
             Password = stringField v e ''database.password'',
             DBName = stringField v e ''database.dbname'',
             SSLMode = stringField v e ''database.sslmode''\<rparr>,
          JWT =
            \<lparr>Secret = stringField v e ''jwt.secret'',
             ExpirationTime = expirationTime\<rparr>,
          Logger =
            \<lparr>Level = stringField v e ''logger.level'',
             Format = stringField v e ''logger.format''\<rparr>\<rparr>)))))))))"

section \<open>Loading\<close>

text \<open>
  \<open>LoadConfig\<close>, call by call as in the source, on the registry \<open>v0\<close> it finds; it
  returns its result and the registry it leaves. The log line of the missing file is
  not modelled. An error of \<open>ReadInConfig\<close> other than \<open>ConfigFileNotFoundError\<close> is
  returned as "error reading config file" (\<open>FileParseError\<close>, whatever the read error
  is), an error of \<open>Unmarshal\<close> as "error unmarshaling config".
\<close>

definition LoadConfig :: "string \<Rightarrow> world \<Rightarrow> Viper \<Rightarrow> (config_error + Config) \<times> Viper" where
  "LoadConfig configPath w v0 =
     (let v1 = SetConfigFile configPath v0;
          v2 = AutomaticEnv v1;
          v3 = setDefaults v2;
          v4 = SetEnvKeyReplacer (NewReplacer CHR ''.'' CHR ''_'') v3;
          (err, v5) = ReadInConfig (files w) v4
      in if err \<noteq> None \<and> err \<noteq> Some ConfigFileNotFoundError then (Inl FileParseError, v5)
         else (Unmarshal v5 (environ w), v5))"

text \<open>
  Steps 2 and 3 of \<open>main\<close>: \<open>LoadConfig\<close> in a fresh process, then \<open>ValidateConfig\<close>
  for the environment name. This is the operation the specification calls Resolve.
\<close>

definition Resolve :: "string \<Rightarrow> string \<Rightarrow> world \<Rightarrow> config_error + Config" where
  "Resolve env configPath w =
     (case fst (LoadConfig configPath w viper_New) of
        Inl e \<Rightarrow> Inl e
      | Inr cfg \<Rightarrow> (case ValidateConfig cfg env of Some e \<Rightarrow> Inl e | None \<Rightarrow> Inr cfg))"


section \<open>Startup (cmd/main.go of the guide)\<close>

datatype panic = ProductionRequires string | RequiresDotEnv | AppEnvMustBeSet

text \<open>
  \<open>setupProductionEnvironment\<close>: the loop over \<open>requiredEnvVars\<close> panics at the first
  variable that \<open>os.Getenv\<close> reads as empty.
\<close>

fun requireEnvVars :: "(string \<rightharpoonup> string) \<Rightarrow> string list \<Rightarrow> panic option" where
  "requireEnvVars e [] = None"
| "requireEnvVars e (envVar # rest) =
     (if Getenv e envVar = [] then Some (ProductionRequires envVar) else requireEnvVars e rest)"

definition requiredEnvVars :: "string list" where
  "requiredEnvVars = [''DATABASE_HOST'', ''DATABASE_PASSWORD'', ''JWT_SECRET'']"

definition setupProductionEnvironment :: "(string \<rightharpoonup> string) \<Rightarrow> panic option" where
  "setupProductionEnvironment e = requireEnvVars e requiredEnvVars"

text \<open>
  \<open>godotenv.Load\<close> fails without a readable \<open>.env\<close> file; otherwise it sets every
  variable of the file that the process environment does not have yet.
  \<open>setupNonProductionEnvironment\<close> panics when the load fails or \<open>APP_ENV\<close> is still
  empty, and returns the extended environment.
\<close>

definition godotenv_Load :: "world \<Rightarrow> (string \<rightharpoonup> string) option" where
  "godotenv_Load w = (case dotenv w of None \<Rightarrow> None | Some m \<Rightarrow> Some (m ++ environ w))"

definition setupNonProductionEnvironment :: "world \<Rightarrow> panic + (string \<rightharpoonup> string)" where
  "setupNonProductionEnvironment w =
     (case godotenv_Load w of
        None \<Rightarrow> Inl RequiresDotEnv
      | Some e \<Rightarrow> if Getenv e ''APP_ENV'' = [] then Inl AppEnvMustBeSet else Inr e)"

text \<open>
  \<open>getConfigPath\<close>: \<open>CONFIG_PATH\<close> when it is not empty, else the first of the
  conventional locations that exists, else \<open>config.yaml\<close>.
\<close>

definition getConfigPath :: "world \<Rightarrow> string" where
  "getConfigPath w =
     (let configPath = Getenv (environ w) ''CONFIG_PATH'' in
      if configPath \<noteq> [] then configPath
      else (case List.find (\<lambda>location. files w location \<noteq> None)
                   [''config.yaml'', ''config.yml'', ''configs/config.yaml'', ''configs/config.yml''] of
              Some location \<Rightarrow> location
            | None \<Rightarrow> ''config.yaml''))"

text \<open>
  \<open>main\<close> up to the start of the server. The outcome is a panic of the environment
  setup, a fatal exit of step 2 ("Failed to load configuration") or of step 3
  ("Configuration validation failed for env"), or the server listening at
  \<open>Host:Port\<close> with the configuration, in the mode \<open>env\<close>.
\<close>

datatype outcome =
    Panicked panic
  | FailedToLoad config_error
  | ValidationFailed string config_error
  | Listening string string Config

definition main :: "world \<Rightarrow> outcome" where
  "main w =
     (let env = Getenv (environ w) ''APP_ENV'';
          setup = (if env = ''production''
                   then (case setupProductionEnvironment (environ w) of
                           Some p \<Rightarrow> Inl p
                         | None \<Rightarrow> Inr (environ w, env))
                   else (case setupNonProductionEnvironment w of
                           Inl p \<Rightarrow> Inl p
                         | Inr e \<Rightarrow> Inr (e, Getenv e ''APP_ENV'')))
      in case setup of
           Inl p \<Rightarrow> Panicked p
         | Inr (e, env') \<Rightarrow>
             (let w' = w\<lparr>environ := e\<rparr>;
                  configPath = getConfigPath w'
              in case fst (LoadConfig configPath w' viper_New) of
                   Inl err \<Rightarrow> FailedToLoad err
                 | Inr cfg \<Rightarrow>
                     (case ValidateConfig cfg env' of
                        Some err \<Rightarrow> ValidationFailed env' err
                      | None \<Rightarrow>
                          Listening env'
                            (ServerConfig.Host (Server cfg) @ '':'' @ ServerConfig.Port (Server cfg))
                            cfg)))"

section \<open>Keys and fields\<close>

text \<open>
  The configuration keys are the keys of the defaults, \<open>sectionKeys\<close> their parents.
  \<open>intKeys\<close> are the keys of the fields declared \<open>int\<close>; \<open>field cfg key\<close> reads the field of \<open>cfg\<close> that the
  \<open>mapstructure\<close> tags name by \<open>key\<close>.
\<close>

definition configKeys :: "string list" where
  "configKeys = map fst fallbackDefaults"

definition sectionKeys :: "string list" where
  "sectionKeys = [''server'', ''database'', ''jwt'', ''logger'']"

definition intKeys :: "string list" where
  "intKeys = [''server.read_timeout'', ''server.write_timeout'', ''server.idle_timeout'',
              ''database.port'', ''jwt.expiration_time'']"

definition field :: "Config \<Rightarrow> string \<Rightarrow> val option" where
  "field cfg =
     map_of
       [(''server.host'', VStr (ServerConfig.Host (Server cfg))),
        (''server.port'', VStr (ServerConfig.Port (Server cfg))),
        (''server.read_timeout'', VInt (ReadTimeout (Server cfg))),
        (''server.write_timeout'', VInt (WriteTimeout (Server cfg))),
        (''server.idle_timeout'', VInt (IdleTimeout (Server cfg))),
        (''database.host'', VStr (DatabaseConfig.Host (Database cfg))),
        (''database.port'', VInt (DatabaseConfig.Port (Database cfg))),
        (''database.user'', VStr (User (Database cfg))),
        (''database.password'', VStr (Password (Database cfg))),
        (''database.dbname'', VStr (DBName (Database cfg))),
        (''database.sslmode'', VStr (SSLMode (Database cfg))),
        (''jwt.secret'', VStr (Secret (JWT cfg))),
        (''jwt.expiration_time'', VInt (ExpirationTime (JWT cfg))),
        (''logger.level'', VStr (Level (Logger cfg))),
        (''logger.format'', VStr (Format (Logger cfg)))]"

text \<open>
  The file settings that \<open>LoadConfig\<close> leaves in the registry, from those it found:
  the settings of the file when \<open>ReadInConfig\<close> read it, else the old ones.
\<close>

definition fileSettings :: "world \<Rightarrow> string \<Rightarrow> (string \<rightharpoonup> val) \<Rightarrow> (string \<rightharpoonup> val)" where
  "fileSettings w path old =
     (if path = [] \<and> files w [] = None then old
      else if configTypeOf path \<notin> set SupportedExts then old
      else (case files w path of Some (Parsed m) \<Rightarrow> m | _ \<Rightarrow> old))"

section \<open>Sample inputs\<close>

text \<open>
  The configurations of \<open>TestValidateProductionConfig\<close> give the JWT secret, the
  database host and the logger level and leave Go's zero value in every other field.
  \<open>defaultConfig\<close> is the configuration of the defaults of \<open>setDefaults\<close>.
\<close>

definition productionTestConfig :: "string \<Rightarrow> string \<Rightarrow> string \<Rightarrow> Config" where
  "productionTestConfig secret host level =
     \<lparr>Server = \<lparr>ServerConfig.Host = [], ServerConfig.Port = [], ReadTimeout = 0,
                 WriteTimeout = 0, IdleTimeout = 0\<rparr>,
      Database = \<lparr>DatabaseConfig.Host = host, DatabaseConfig.Port = 0, User = [],
                   Password = [], DBName = [], SSLMode = []\<rparr>,
      JWT = \<lparr>Secret = secret, ExpirationTime = 0\<rparr>,
      Logger = \<lparr>Level = level, Format = []\<rparr>\<rparr>"

definition defaultConfig :: Config where
  "defaultConfig =
     \<lparr>Server = \<lparr>ServerConfig.Host = ''localhost'', ServerConfig.Port = ''3000'',
                 ReadTimeout = 30, WriteTimeout = 30, IdleTimeout = 60\<rparr>,
      Database = \<lparr>DatabaseConfig.Host = ''localhost'', DatabaseConfig.Port = 5432,
                   User = ''postgres'', Password = [], DBName = ''user_management'',
                   SSLMode = ''disable''\<rparr>,
      JWT = \<lparr>Secret = ''your-secret-key-change-in-production'', ExpirationTime = 24\<rparr>,
      Logger = \<lparr>Level = ''info'', Format = ''json''\<rparr>\<rparr>"

text \<open>
  A world with no environment variable and an empty configuration file \<open>config.yaml\<close>,
  which \<open>LoadConfig\<close> reads to \<open>defaultConfig\<close>; and a world whose file is malformed.
\<close>

definition emptyFile :: "string \<rightharpoonup> val" where
  "emptyFile = Map.empty"

definition bareWorld :: world where
  "bareWorld =
     \<lparr>environ = Map.empty, files = [''config.yaml'' \<mapsto> Parsed emptyFile], dotenv = None\<rparr>"

definition malformedWorld :: world where
  "malformedWorld =
     \<lparr>environ = Map.empty, files = [''config.yaml'' \<mapsto> Unparseable], dotenv = None\<rparr>"

text \<open>
  The world of \<open>TestLoadConfigWithEnvVars\<close> (\<open>SERVER_PORT\<close> and \<open>DATABASE_PORT\<close> are set),
  with \<open>DATABASE_NAME\<close> of \<open>.env.example\<close> and a configuration file that sets three keys;
  the configuration that the defaults and these variables give without the file
  (\<open>envOnlyConfig\<close>) and the one loaded with the file (\<open>envTestConfig\<close>).
\<close>

definition envTestFile :: "string \<rightharpoonup> val" where
  "envTestFile =
     [''server.port'' \<mapsto> VStr ''3000'', ''database.port'' \<mapsto> VInt 6000,
      ''logger.level'' \<mapsto> VStr ''warn'']"

definition envTestWorld :: world where
  "envTestWorld =
     \<lparr>environ = [''SERVER_PORT'' \<mapsto> ''8080'', ''DATABASE_PORT'' \<mapsto> ''5433'',
                 ''DATABASE_NAME'' \<mapsto> ''users''],
      files = [''config.yaml'' \<mapsto> Parsed envTestFile],
      dotenv = None\<rparr>"


definition envTestConfig :: Config where
  "envTestConfig =
     \<lparr>Server = \<lparr>ServerConfig.Host = ''localhost'', ServerConfig.Port = ''8080'',
                 ReadTimeout = 30, WriteTimeout = 30, IdleTimeout = 60\<rparr>,
      Database = \<lparr>DatabaseConfig.Host = ''localhost'', DatabaseConfig.Port = 5433,
                   User = ''postgres'', Password = [], DBName = ''user_management'',
                   SSLMode = ''disable''\<rparr>,
      JWT = \<lparr>Secret = ''your-secret-key-change-in-production'', ExpirationTime = 24\<rparr>,
      Logger = \<lparr>Level = ''warn'', Format = ''json''\<rparr>\<rparr>"


text \<open>
  Worlds with the empty configuration file and one environment variable: \<open>JWT_SECRET\<close>
  set to the empty string, \<open>DATABASE_PORT\<close> set to \<open>010\<close>, and \<open>LOGGER\<close>, the name of a
  section, set to \<open>x\<close>; with the configurations loaded from the last two.
\<close>

definition emptySecretWorld :: world where
  "emptySecretWorld = bareWorld\<lparr>environ := [''JWT_SECRET'' \<mapsto> []]\<rparr>"

definition octalPortWorld :: world where
  "octalPortWorld = bareWorld\<lparr>environ := [''DATABASE_PORT'' \<mapsto> ''010'']\<rparr>"

definition octalPortConfig :: Config where
  "octalPortConfig =
     defaultConfig\<lparr>Database := (Database defaultConfig)\<lparr>DatabaseConfig.Port := 8\<rparr>\<rparr>"



text \<open>
  Production environments with a malformed configuration file, in which each of
  \<open>DATABASE_HOST\<close>, \<open>DATABASE_PASSWORD\<close> and \<open>JWT_SECRET\<close> is unset (\<open>None\<close>) or has the
  given value.
\<close>

definition productionWorld :: "string option \<Rightarrow> string option \<Rightarrow> string option \<Rightarrow> world" where
  "productionWorld host password secret =
     \<lparr>environ = (\<lambda>name.
          if name = ''APP_ENV'' then Some ''production''
          else if name = ''DATABASE_HOST'' then host
          else if name = ''DATABASE_PASSWORD'' then password
          else if name = ''JWT_SECRET'' then secret
          else None),
      files = [''config.yaml'' \<mapsto> Unparseable],
      dotenv = None\<rparr>"

section \<open>Properties of the registry and of loading\<close>

lemma setDefaults_other [simp]:
  "configFile (setDefaults v) = configFile v"
  "automaticEnvApplied (setDefaults v) = automaticEnvApplied v"
  "envKeyReplacer (setDefaults v) = envKeyReplacer v"
  "config (setDefaults v) = config v"
  by (simp_all add: setDefaults_def fallbackDefaults_def SetDefault_def)

lemma defaults_setDefaults:
  "defaults (setDefaults v) key =
     (case map_of fallbackDefaults key of None \<Rightarrow> defaults v key | Some x \<Rightarrow> Some x)"
  by (simp add: setDefaults_def fallbackDefaults_def SetDefault_def)

lemma defaults_setDefaults_cong:
  "defaults v = defaults v' \<Longrightarrow> defaults (setDefaults v) = defaults (setDefaults v')"
  by (rule ext) (simp only: defaults_setDefaults)

lemma defaults_setDefaults_update [simp]:
  "defaults (setDefaults (v\<lparr>configFile := p, automaticEnvApplied := b\<rparr>)) = defaults (setDefaults v)"
  by (rule defaults_setDefaults_cong) simp

lemma LoadConfig_registry:
  "snd (LoadConfig path w v0) =
     \<lparr>configFile = path, automaticEnvApplied = True,
      envKeyReplacer = Some (CHR ''.'', CHR ''_''),
      defaults = defaults (setDefaults v0),
      config = fileSettings w path (config v0)\<rparr>"
  by (intro Viper.equality)
     (simp_all add: LoadConfig_def ReadInConfig_def getConfigType_def fileSettings_def
        SetEnvKeyReplacer_def NewReplacer_def AutomaticEnv_def SetConfigFile_def Let_def
        split: option.splits file_content.splits prod.splits)

lemma LoadConfig_result:
  "fst (LoadConfig path w v0) =
     (if path = [] \<and> files w [] = None then Unmarshal (snd (LoadConfig path w v0)) (environ w)
      else if configTypeOf path \<in> set SupportedExts \<and> (\<exists>m. files w path = Some (Parsed m))
        then Unmarshal (snd (LoadConfig path w v0)) (environ w)
      else Inl FileParseError)"
  by (simp add: LoadConfig_def ReadInConfig_def getConfigType_def
        SetEnvKeyReplacer_def NewReplacer_def AutomaticEnv_def SetConfigFile_def Let_def
        split: option.splits file_content.splits prod.splits)

lemma envKey_LoadConfig:
  "envKey (snd (LoadConfig path w v0)) key =
     map toUpper (map (\<lambda>c. if c = CHR ''.'' then CHR ''_'' else c) key)"
  by (simp add: LoadConfig_registry envKey_def Replace_def)

lemma automaticEnv_LoadConfig [simp]: "automaticEnvApplied (snd (LoadConfig path w v0))"
  by (simp add: LoadConfig_registry)



lemma Unmarshal_of_LoadConfig:
  "fst (LoadConfig path w v0) = Inr cfg \<Longrightarrow>
     Unmarshal (snd (LoadConfig path w v0)) (environ w) = Inr cfg"
  by (simp add: LoadConfig_result split: if_splits)

lemma bindE_Inr: "bindE m f = Inr y \<longleftrightarrow> (\<exists>x. m = Inr x \<and> f x = Inr y)"
  by (cases m) (simp_all add: bindE_def)


lemma sectionMap_Inr: "sectionMap v s = Inr x \<longleftrightarrow> config v s = None"
  by (simp add: sectionMap_def)

lemma Unmarshal_Inr_iff:
  "Unmarshal v e = Inr cfg \<longleftrightarrow>
     (config v ''server'' = None \<and> config v ''database'' = None
      \<and> config v ''jwt'' = None \<and> config v ''logger'' = None
      \<and> (\<exists>rt wt it p ex.
        intField v e ''server.read_timeout'' = Inr rt \<and>
        intField v e ''server.write_timeout'' = Inr wt \<and>
        intField v e ''server.idle_timeout'' = Inr it \<and>
        intField v e ''database.port'' = Inr p \<and>
        intField v e ''jwt.expiration_time'' = Inr ex \<and>
        cfg = \<lparr>Server =
            \<lparr>ServerConfig.Host = stringField v e ''server.host'',
             ServerConfig.Port = stringField v e ''server.port'',
             ReadTimeout = rt,
             WriteTimeout = wt,
             IdleTimeout = it\<rparr>,
          Database =
            \<lparr>DatabaseConfig.Host = stringField v e ''database.host'',
             DatabaseConfig.Port = p,
             User = stringField v e ''database.user'',
             Password = stringField v e ''database.password'',
             DBName = stringField v e ''database.dbname'',
             SSLMode = stringField v e ''database.sslmode''\<rparr>,
          JWT =
            \<lparr>Secret = stringField v e ''jwt.secret'',
             ExpirationTime = ex\<rparr>,
          Logger =
            \<lparr>Level = stringField v e ''logger.level'',
             Format = stringField v e ''logger.format''\<rparr>\<rparr>))"
  unfolding Unmarshal_def bindE_Inr sectionMap_Inr by (simp only: sum.inject) blast

lemma field_Unmarshal_int:
  assumes "Unmarshal v e = Inr cfg" and "key \<in> set intKeys"
  shows "\<exists>n. intField v e key = Inr n \<and> field cfg key = Some (VInt n)"
proof -
  from assms(1) obtain rt wt it p ex where
    "intField v e ''server.read_timeout'' = Inr rt"
    "intField v e ''server.write_timeout'' = Inr wt"
    "intField v e ''server.idle_timeout'' = Inr it"
    "intField v e ''database.port'' = Inr p"
    "intField v e ''jwt.expiration_time'' = Inr ex"
    "field cfg ''server.read_timeout'' = Some (VInt rt)"
    "field cfg ''server.write_timeout'' = Some (VInt wt)"
    "field cfg ''server.idle_timeout'' = Some (VInt it)"
    "field cfg ''database.port'' = Some (VInt p)"
    "field cfg ''jwt.expiration_time'' = Some (VInt ex)"
    unfolding Unmarshal_Inr_iff by (auto simp: field_def)
  with assms(2) show ?thesis
    unfolding intKeys_def by auto
qed

lemma stringKeys_cases:
  assumes "key \<in> set configKeys" and "key \<notin> set intKeys"
  shows "key \<in> {''server.host'', ''server.port'', ''database.host'', ''database.user'',
        ''database.password'', ''database.dbname'', ''database.sslmode'', ''jwt.secret'',
        ''logger.level'', ''logger.format''}"
  using assms unfolding configKeys_def fallbackDefaults_def intKeys_def by auto

lemma field_Unmarshal_string:
  assumes "Unmarshal v e = Inr cfg" and "key \<in> set configKeys" and "key \<notin> set intKeys"
  shows "field cfg key = Some (VStr (stringField v e key))"
proof -
  from assms(1) have
    "field cfg ''server.host'' = Some (VStr (stringField v e ''server.host''))"
    "field cfg ''server.port'' = Some (VStr (stringField v e ''server.port''))"
    "field cfg ''database.host'' = Some (VStr (stringField v e ''database.host''))"
    "field cfg ''database.user'' = Some (VStr (stringField v e ''database.user''))"
    "field cfg ''database.password'' = Some (VStr (stringField v e ''database.password''))"
    "field cfg ''database.dbname'' = Some (VStr (stringField v e ''database.dbname''))"
    "field cfg ''database.sslmode'' = Some (VStr (stringField v e ''database.sslmode''))"
    "field cfg ''jwt.secret'' = Some (VStr (stringField v e ''jwt.secret''))"
    "field cfg ''logger.level'' = Some (VStr (stringField v e ''logger.level''))"
    "field cfg ''logger.format'' = Some (VStr (stringField v e ''logger.format''))"
    unfolding Unmarshal_Inr_iff by (auto simp: field_def)
  with stringKeys_cases [OF assms(2,3)] show ?thesis by blast
qed

lemma Unmarshal_cong:
  assumes "\<forall>k\<in>set configKeys. Get v e k = Get v' e' k"
    and "\<forall>s\<in>set sectionKeys. config v s = config v' s"
  shows "Unmarshal v e = Unmarshal v' e'"
  using assms
  by (simp add: Unmarshal_def intField_def stringField_def sectionMap_def configKeys_def
        fallbackDefaults_def sectionKeys_def)





lemma parentKeys_configKey:
  assumes "key \<in> set configKeys"
  shows "set (parentKeys key) \<subseteq> set sectionKeys"
proof -
  from assms have "key \<in> {''server.host'', ''server.port'', ''server.read_timeout'',
      ''server.write_timeout'', ''server.idle_timeout'', ''database.host'', ''database.port'',
      ''database.user'', ''database.password'', ''database.dbname'', ''database.sslmode'',
      ''jwt.secret'', ''jwt.expiration_time'', ''logger.level'', ''logger.format''}"
    by (simp add: configKeys_def fallbackDefaults_def)
  then show ?thesis
    by (elim insertE emptyE) (simp_all add: parentKeys_def sectionKeys_def)
qed

lemma Get_own_variable:
  assumes "automaticEnvApplied v" and "getEnv e (envKey v key) = Some s"
  shows "Get v e key = Some (VStr s)"
  using assms by (simp add: Get_def)



lemma fileSettings_cong:
  "files w1 path = files w2 path \<Longrightarrow> fileSettings w1 path old = fileSettings w2 path old"
  by (cases "path = []") (simp_all add: fileSettings_def)



lemma LoadConfig_registry_files:
  "files w1 path = files w2 path \<Longrightarrow>
     snd (LoadConfig path w1 v0) = snd (LoadConfig path w2 v0)"
  by (simp add: LoadConfig_registry fileSettings_cong [of w1 path w2])

lemma LoadConfig_cong:
  assumes "files w1 path = files w2 path"
    and "\<forall>k\<in>set (configKeys @ sectionKeys).
           getEnv (environ w1) (envKey (snd (LoadConfig path w1 v0)) k) =
           getEnv (environ w2) (envKey (snd (LoadConfig path w2 v0)) k)"
  shows "fst (LoadConfig path w1 v0) = fst (LoadConfig path w2 v0)"
proof -
  let ?v = "snd (LoadConfig path w1 v0)"
  have reg: "snd (LoadConfig path w2 v0) = ?v"
    using assms(1) [symmetric] by (rule LoadConfig_registry_files)
  have env: "getEnv (environ w1) (envKey ?v k) = getEnv (environ w2) (envKey ?v k)"
    if "k \<in> set configKeys \<or> k \<in> set sectionKeys" for k
    using assms(2) that unfolding reg by auto
  have "Get ?v (environ w1) k = Get ?v (environ w2) k" if k: "k \<in> set configKeys" for k
  proof -
    have "getEnv (environ w1) (envKey ?v p) = getEnv (environ w2) (envKey ?v p)"
      if "p \<in> set (parentKeys k)" for p
      using parentKeys_configKey [OF k] that env by blast
    then have "list_ex (\<lambda>p. getEnv (environ w1) (envKey ?v p) \<noteq> None) (parentKeys k)
             = list_ex (\<lambda>p. getEnv (environ w2) (envKey ?v p) \<noteq> None) (parentKeys k)"
      by (simp add: list_ex_iff)
    with env [of k] k show ?thesis
      by (simp add: Get_def)
  qed
  then have "Unmarshal ?v (environ w1) = Unmarshal ?v (environ w2)"
    by (intro Unmarshal_cong ballI) simp_all
  then show ?thesis
    using assms(1) unfolding LoadConfig_result [of path w1] LoadConfig_result [of path w2] reg
    by (cases "path = []") auto
qed










lemmas registry_simps =
  LoadConfig_result LoadConfig_registry fileSettings_def configTypeOf_def filepath_Ext_def
  SupportedExts_def Unmarshal_def bindE_def sectionMap_def intField_def stringField_def
  Get_def getEnv_def envKey_def Replace_def toUpper_def parentKeys_def defaults_setDefaults
  fallbackDefaults_def parseInt_def parseUint_def digitVal_def lower_def underscoreOK_def
  fitsInt_def viper_New_def

lemma LoadConfig_bareWorld:
  "fst (LoadConfig ''config.yaml'' bareWorld viper_New) = Inr defaultConfig"
  by (simp add: registry_simps bareWorld_def emptyFile_def defaultConfig_def)

lemma LoadConfig_envTestWorld:
  "fst (LoadConfig ''config.yaml'' envTestWorld viper_New) = Inr envTestConfig"
  by (simp add: registry_simps envTestWorld_def envTestFile_def envTestConfig_def)

lemma LoadConfig_emptySecretWorld:
  "fst (LoadConfig ''config.yaml'' emptySecretWorld viper_New) = Inr defaultConfig"
  by (simp add: registry_simps emptySecretWorld_def bareWorld_def emptyFile_def defaultConfig_def)

lemma LoadConfig_octalPortWorld:
  "fst (LoadConfig ''config.yaml'' octalPortWorld viper_New) = Inr octalPortConfig"
  by (simp add: registry_simps octalPortWorld_def bareWorld_def emptyFile_def
        octalPortConfig_def defaultConfig_def)




lemma LoadConfig_missing:
  assumes "path \<noteq> []" and "files w path = None"
  shows "fst (LoadConfig path w v0) = Inl FileParseError"
  using assms by (simp add: LoadConfig_result)

lemma LoadConfig_missing_file:
  "fst (LoadConfig ''nonexistent.yaml'' bareWorld viper_New) = Inl FileParseError"
  "fst (LoadConfig ''/nonexistent/path'' bareWorld viper_New) = Inl FileParseError"
  by (rule LoadConfig_missing; simp add: bareWorld_def)+


lemma Getenv_empty_iff: "Getenv e x = [] \<longleftrightarrow> e x = None \<or> e x = Some []"
  by (simp add: Getenv_def split: option.splits)

lemma main_production:
  assumes "Getenv (environ w) ''APP_ENV'' = ''production''"
  shows "main w =
     (case setupProductionEnvironment (environ w) of
        Some p \<Rightarrow> Panicked p
      | None \<Rightarrow>
          (case fst (LoadConfig (getConfigPath w) w viper_New) of
             Inl err \<Rightarrow> FailedToLoad err
           | Inr cfg \<Rightarrow>
               (case ValidateConfig cfg ''production'' of
                  Some err \<Rightarrow> ValidationFailed ''production'' err
                | None \<Rightarrow>
                    Listening ''production''
                      (ServerConfig.Host (Server cfg) @ '':'' @ ServerConfig.Port (Server cfg))
                      cfg)))"
  using assms by (simp add: main_def Let_def split: option.splits)

section \<open>The claims\<close>

text \<open>
  C1. The specification asks that a production configuration whose database host is the
  literal \<open>localhost\<close> fails with \<open>UnsafeDatabaseHost\<close>, and that no other host does.
  \<open>validateProductionConfig\<close> tests \<open>strings.Contains(host, "localhost") && host !=
  "localhost"\<close>: on the "valid production config" of the test with the host \<open>localhost\<close>
  validation returns no error, and with the host \<open>db.localhost.internal\<close> it returns
  "production database should not use localhost".
\<close>

theorem production_localhost_not_rejected:
  "ValidateConfig (productionTestConfig ''secure-production-secret'' ''localhost'' ''warn'')
      ''production'' = None
   \<and> ValidateConfig (productionTestConfig ''secure-production-secret'' ''db.localhost.internal'' ''warn'')
      ''production'' = Some UnsafeDatabaseHost"
  by (simp add: ValidateConfig_def validateProductionConfig_def productionTestConfig_def
        strings_HasPrefix_def)

text \<open>
  C2, as stated: the value returned for a key is the value of its environment variable
  whenever the variable is set. With \<open>JWT_SECRET\<close> set to the empty string the returned
  secret is the default, not the empty string.
\<close>

theorem empty_variable_does_not_override_counterexample:
  "''jwt.secret'' \<in> set configKeys
   \<and> envKey (snd (LoadConfig ''config.yaml'' emptySecretWorld viper_New)) ''jwt.secret''
       = ''JWT_SECRET''
   \<and> environ emptySecretWorld ''JWT_SECRET'' = Some []
   \<and> fst (LoadConfig ''config.yaml'' emptySecretWorld viper_New) = Inr defaultConfig
   \<and> field defaultConfig ''jwt.secret'' = Some (VStr ''your-secret-key-change-in-production'')"
proof -
  have "''jwt.secret'' \<in> set configKeys"
    by (simp add: configKeys_def fallbackDefaults_def)
  moreover have "envKey (snd (LoadConfig ''config.yaml'' emptySecretWorld viper_New))
      ''jwt.secret'' = ''JWT_SECRET''"
    by (simp add: envKey_LoadConfig toUpper_def)
  moreover have "environ emptySecretWorld ''JWT_SECRET'' = Some []"
    by (simp add: emptySecretWorld_def)
  moreover have "field defaultConfig ''jwt.secret''
      = Some (VStr ''your-secret-key-change-in-production'')"
    by (simp add: field_def defaultConfig_def)
  ultimately show ?thesis
    using LoadConfig_emptySecretWorld by blast
qed

text \<open>
  C2, amended. For every configuration key whose environment variable is set and not
  empty, the registry that \<open>LoadConfig\<close> leaves gives the value of the variable for the
  key, whatever the file and the default say; and when \<open>LoadConfig\<close> returns a
  configuration, the field of the key holds that value, as it is for a string field and
  as the integer that Go reads in it for an integer field. A variable that is set to the
  empty string is read as one that is not set.
\<close>

theorem environment_overrides_file_and_default:
  assumes "key \<in> set configKeys"
    and "environ w (envKey (snd (LoadConfig path w v0)) key) = Some s"
    and "s \<noteq> []"
  shows "Get (snd (LoadConfig path w v0)) (environ w) key = Some (VStr s)
     \<and> (fst (LoadConfig path w v0) = Inr cfg \<longrightarrow>
          field cfg key =
            (if key \<in> set intKeys then map_option VInt (parseInt s) else Some (VStr s)))
     \<and> fst (LoadConfig path' (w'\<lparr>environ := (environ w')(name \<mapsto> [])\<rparr>) v0')
         = fst (LoadConfig path' (w'\<lparr>environ := (environ w')(name := None)\<rparr>) v0')"
proof -
  let ?v = "snd (LoadConfig path w v0)"
  have g: "Get ?v (environ w) key = Some (VStr s)"
    using assms(2,3) by (intro Get_own_variable) (simp_all add: getEnv_def)
  have f: "field cfg key =
          (if key \<in> set intKeys then map_option VInt (parseInt s) else Some (VStr s))"
    if "fst (LoadConfig path w v0) = Inr cfg"
  proof -
    have u: "Unmarshal ?v (environ w) = Inr cfg"
      using that by (rule Unmarshal_of_LoadConfig)
    show ?thesis
    proof (cases "key \<in> set intKeys")
      case True
      from field_Unmarshal_int [OF u True] obtain n where
        n: "intField ?v (environ w) key = Inr n" "field cfg key = Some (VInt n)"
        by blast
      from n(1) g assms(3) have "parseInt s = Some n"
        by (cases "parseInt s") (simp_all add: intField_def)
      with n(2) True show ?thesis by simp
    next
      case False
      from field_Unmarshal_string [OF u assms(1) False] g False show ?thesis
        by (simp add: stringField_def)
    qed
  qed
  have e: "fst (LoadConfig path' (w'\<lparr>environ := (environ w')(name \<mapsto> [])\<rparr>) v0')
         = fst (LoadConfig path' (w'\<lparr>environ := (environ w')(name := None)\<rparr>) v0')"
    by (rule LoadConfig_cong) (simp_all add: getEnv_def envKey_LoadConfig)
  from g f e show ?thesis by blast
qed

theorem environment_overrides_file_and_default_witness:
  "''database.port'' \<in> set configKeys
   \<and> environ envTestWorld ''DATABASE_PORT'' = Some ''5433''
   \<and> files envTestWorld ''config.yaml'' = Some (Parsed envTestFile)
   \<and> envTestFile ''database.port'' = Some (VInt 6000)
   \<and> map_of fallbackDefaults ''database.port'' = Some (VInt 5432)
   \<and> fst (LoadConfig ''config.yaml'' envTestWorld viper_New) = Inr envTestConfig
   \<and> field envTestConfig ''database.port'' = Some (VInt 5433)
   \<and> environ octalPortWorld ''DATABASE_PORT'' = Some ''010''
   \<and> fst (LoadConfig ''config.yaml'' octalPortWorld viper_New) = Inr octalPortConfig
   \<and> field octalPortConfig ''database.port'' = Some (VInt 8)"
proof -
  have k: "''database.port'' \<in> set configKeys"
    by (simp add: configKeys_def fallbackDefaults_def)
  have e: "environ envTestWorld
             (envKey (snd (LoadConfig ''config.yaml'' envTestWorld viper_New)) ''database.port'')
           = Some ''5433''"
    by (simp add: envKey_LoadConfig toUpper_def envTestWorld_def)
  have e': "environ octalPortWorld
             (envKey (snd (LoadConfig ''config.yaml'' octalPortWorld viper_New)) ''database.port'')
           = Some ''010''"
    by (simp add: envKey_LoadConfig toUpper_def octalPortWorld_def)
  have l: "fst (LoadConfig ''config.yaml'' envTestWorld viper_New) = Inr envTestConfig"
    by (rule LoadConfig_envTestWorld)
  have l': "fst (LoadConfig ''config.yaml'' octalPortWorld viper_New) = Inr octalPortConfig"
    by (rule LoadConfig_octalPortWorld)
  have "field envTestConfig ''database.port'' = Some (VInt 5433)"
    using environment_overrides_file_and_default [OF k e, of envTestConfig] l
    by (simp add: intKeys_def parseInt_def parseUint_def digitVal_def lower_def)
  moreover have "field octalPortConfig ''database.port'' = Some (VInt 8)"
    using environment_overrides_file_and_default [OF k e', of octalPortConfig] l'
    by (simp add: intKeys_def parseInt_def parseUint_def digitVal_def lower_def)
  ultimately show ?thesis
    using k l l'
    by (simp add: envTestWorld_def envTestFile_def fallbackDefaults_def octalPortWorld_def)
qed






text \<open>
  C5. For the environment names \<open>development\<close> and \<open>staging\<close> validation returns no
  error for every configuration, so Resolve returns whatever loading returns.
\<close>

theorem non_production_skips_validation:
  assumes "env = ''development'' \<or> env = ''staging''"
  shows "ValidateConfig cfg env = None
     \<and> Resolve env path w = fst (LoadConfig path w viper_New)"
  using assms
  by (auto simp: ValidateConfig_def validateNonProductionConfig_def Resolve_def
        split: sum.splits)

theorem non_production_skips_validation_witness:
  "ValidateConfig defaultConfig ''development'' = None
   \<and> Secret (JWT defaultConfig) = ''your-secret-key-change-in-production''
   \<and> Resolve ''development'' ''config.yaml'' bareWorld = Inr defaultConfig
   \<and> Resolve ''staging'' ''config.yaml'' bareWorld = Inr defaultConfig"
  using non_production_skips_validation [of "''development''" defaultConfig "''config.yaml''" bareWorld]
    non_production_skips_validation [of "''staging''" defaultConfig "''config.yaml''" bareWorld]
  by (simp add: LoadConfig_bareWorld) (simp add: defaultConfig_def)

text \<open>
  C6. When the configuration file exists and is malformed, \<open>LoadConfig\<close> fails with
  \<open>FileParseError\<close> on every registry, and so does Resolve for every environment name.
\<close>

theorem malformed_file_is_parse_error:
  assumes "files w path = Some Unparseable"
  shows "fst (LoadConfig path w v0) = Inl FileParseError
     \<and> Resolve env path w = Inl FileParseError"
proof -
  have "fst (LoadConfig path w v) = Inl FileParseError" for v
    using assms by (cases "path = []") (simp_all add: LoadConfig_result)
  then show ?thesis
    by (simp add: Resolve_def)
qed

theorem malformed_file_is_parse_error_witness:
  "files malformedWorld ''config.yaml'' = Some Unparseable
   \<and> Resolve ''production'' ''config.yaml'' malformedWorld = Inl FileParseError
   \<and> Resolve ''development'' ''config.yaml'' malformedWorld = Inl FileParseError
   \<and> Resolve ''no-such-environment'' ''config.yaml'' malformedWorld = Inl FileParseError"
proof -
  have h: "files malformedWorld ''config.yaml'' = Some Unparseable"
    by (simp add: malformedWorld_def)
  show ?thesis
    using h malformed_file_is_parse_error [OF h] by simp
qed

text \<open>
  C7. The specification, the comment of \<open>LoadConfig\<close> ("If config file doesn't exist, log
  and continue with defaults and env vars") and \<open>TestLoadConfigFileNotFound\<close> ask that a
  missing configuration file is tolerated. \<open>LoadConfig\<close> tolerates only
  \<open>ConfigFileNotFoundError\<close>, which \<open>ReadInConfig\<close> does not return for a path set with
  \<open>SetConfigFile\<close>: for the missing \<open>nonexistent.yaml\<close> of the test and the missing
  \<open>/nonexistent/path\<close> of the specification \<open>LoadConfig\<close> returns "error reading config
  file", and so does Resolve.
\<close>

theorem missing_file_is_read_error:
  "files bareWorld ''nonexistent.yaml'' = None
   \<and> fst (LoadConfig ''nonexistent.yaml'' bareWorld viper_New) = Inl FileParseError
   \<and> files bareWorld ''/nonexistent/path'' = None
   \<and> fst (LoadConfig ''/nonexistent/path'' bareWorld viper_New) = Inl FileParseError
   \<and> Resolve ''development'' ''nonexistent.yaml'' bareWorld = Inl FileParseError"
  using LoadConfig_missing_file
  by (simp add: Resolve_def) (simp add: bareWorld_def)







text \<open>
  C10. When \<open>APP_ENV\<close> is \<open>production\<close>, \<open>main\<close> panics in
  \<open>setupProductionEnvironment\<close>, before it loads or validates anything and whatever the
  configuration file and the defaults are, if \<open>DATABASE_HOST\<close> is unset or empty, naming
  \<open>DATABASE_HOST\<close>; else if \<open>DATABASE_PASSWORD\<close> is unset or empty, naming
  \<open>DATABASE_PASSWORD\<close>; else if \<open>JWT_SECRET\<close> is unset or empty, naming \<open>JWT_SECRET\<close>. When
  all three are set and not empty, \<open>main\<close> does not panic.
\<close>

theorem production_requires_environment_variables:
  assumes "environ w ''APP_ENV'' = Some ''production''"
  shows "(Getenv (environ w) ''DATABASE_HOST'' = [] \<longrightarrow>
            main w = Panicked (ProductionRequires ''DATABASE_HOST''))
     \<and> (Getenv (environ w) ''DATABASE_HOST'' \<noteq> []
          \<and> Getenv (environ w) ''DATABASE_PASSWORD'' = [] \<longrightarrow>
            main w = Panicked (ProductionRequires ''DATABASE_PASSWORD''))
     \<and> (Getenv (environ w) ''DATABASE_HOST'' \<noteq> []
          \<and> Getenv (environ w) ''DATABASE_PASSWORD'' \<noteq> []
          \<and> Getenv (environ w) ''JWT_SECRET'' = [] \<longrightarrow>
            main w = Panicked (ProductionRequires ''JWT_SECRET''))
     \<and> (Getenv (environ w) ''DATABASE_HOST'' \<noteq> []
          \<and> Getenv (environ w) ''DATABASE_PASSWORD'' \<noteq> []
          \<and> Getenv (environ w) ''JWT_SECRET'' \<noteq> [] \<longrightarrow>
            (\<forall>p. main w \<noteq> Panicked p))
     \<and> (\<forall>name. Getenv (environ w) name = [] \<longleftrightarrow>
            environ w name = None \<or> environ w name = Some [])"
proof -
  have env: "Getenv (environ w) ''APP_ENV'' = ''production''"
    using assms by (simp add: Getenv_def)
  show ?thesis
    unfolding main_production [OF env] setupProductionEnvironment_def requiredEnvVars_def
    by (auto simp: Getenv_empty_iff split: sum.splits option.splits)
qed

theorem production_requires_environment_variables_witness:
  "environ (productionWorld None (Some ''pw'') (Some ''secret'')) ''APP_ENV'' = Some ''production''
   \<and> main (productionWorld None (Some ''pw'') (Some ''secret''))
       = Panicked (ProductionRequires ''DATABASE_HOST'')
   \<and> main (productionWorld (Some ''prod-db.example.com'') (Some []) None)
       = Panicked (ProductionRequires ''DATABASE_PASSWORD'')
   \<and> main (productionWorld (Some ''prod-db.example.com'') (Some ''pw'') None)
       = Panicked (ProductionRequires ''JWT_SECRET'')
   \<and> files (productionWorld (Some ''prod-db.example.com'') (Some ''pw'') None)
        (getConfigPath (productionWorld (Some ''prod-db.example.com'') (Some ''pw'') None))
       = Some Unparseable
   \<and> main (productionWorld (Some ''prod-db.example.com'') (Some ''pw'') (Some ''secret''))
       = FailedToLoad FileParseError"
proof -
  have a: "environ (productionWorld h p s) ''APP_ENV'' = Some ''production''" for h p s
    by (simp add: productionWorld_def)
  have g: "Getenv (environ (productionWorld h p s)) ''DATABASE_HOST'' = (case h of None \<Rightarrow> [] | Some x \<Rightarrow> x)"
    "Getenv (environ (productionWorld h p s)) ''DATABASE_PASSWORD'' = (case p of None \<Rightarrow> [] | Some x \<Rightarrow> x)"
    "Getenv (environ (productionWorld h p s)) ''JWT_SECRET'' = (case s of None \<Rightarrow> [] | Some x \<Rightarrow> x)"
    for h p s
    by (simp_all add: productionWorld_def Getenv_def)
  have "main (productionWorld None (Some ''pw'') (Some ''secret''))
       = Panicked (ProductionRequires ''DATABASE_HOST'')"
    using production_requires_environment_variables [OF a [of None "Some ''pw''" "Some ''secret''"]]
    by (simp add: g)
  moreover have "main (productionWorld (Some ''prod-db.example.com'') (Some []) None)
       = Panicked (ProductionRequires ''DATABASE_PASSWORD'')"
    using production_requires_environment_variables
            [OF a [of "Some ''prod-db.example.com''" "Some []" None]]
    by (simp add: g)
  moreover have "main (productionWorld (Some ''prod-db.example.com'') (Some ''pw'') None)
       = Panicked (ProductionRequires ''JWT_SECRET'')"
    using production_requires_environment_variables
            [OF a [of "Some ''prod-db.example.com''" "Some ''pw''" None]]
    by (simp add: g)
  moreover have "files (productionWorld h p s) (getConfigPath (productionWorld h p s))
       = Some Unparseable" for h p s
    by (simp add: productionWorld_def getConfigPath_def Getenv_def)
  moreover have "main (productionWorld (Some ''prod-db.example.com'') (Some ''pw'') (Some ''secret''))
       = FailedToLoad FileParseError"
    by (simp add: main_production a g Getenv_def setupProductionEnvironment_def
          requiredEnvVars_def getConfigPath_def LoadConfig_result productionWorld_def
          configTypeOf_def filepath_Ext_def SupportedExts_def)
  ultimately show ?thesis
    using a by simp
qed

end
